theory Spec2Isabelle
  imports Complex_Main
begin

section \<open>Sua Vida em Semanas: the week counter, the life grid and the derived tables\<close>

text \<open>
  The program is the single file \<^verbatim>\<open>vida_semanas_streamlit.py\<close>. Python integers are
  unbounded, so they are \<^typ>\<open>int\<close>; Python's \<^verbatim>\<open>//\<close> is floor division, which is
  \<^term>\<open>(div)\<close> on \<^typ>\<open>int\<close>. Dictionaries with a fixed set of keys are records whose
  fields carry the keys' names.
\<close>

subsection \<open>Python's \<^verbatim>\<open>range\<close>\<close>

text \<open>\<^verbatim>\<open>range(n)\<close>: the integers from 0 up to, not including, n; empty when n is not positive.\<close>

definition range_py :: "int \<Rightarrow> int list" where
  "range_py n = [0..n - 1]"

subsection \<open>The life grid (lines 25 to 52)\<close>

text \<open>The dictionary appended for each week, with its four keys.\<close>

record week_cell =
  ano :: int
  semana :: int
  semana_absoluta :: int
  status :: string

text \<open>
  \<^verbatim>\<open>criar_grid_vida\<close>: both loops start from an empty list and append one element per
  iteration, which is a left fold over the range.
\<close>

definition criar_grid_vida :: "int \<Rightarrow> int \<Rightarrow> week_cell list list" where
  "criar_grid_vida semanas_vividas expectativa_vida =
     (let total_semanas = expectativa_vida * 52;
          semanas_por_linha = 52;
          linhas = expectativa_vida
      in foldl (\<lambda>grid ano.
           grid @ [foldl (\<lambda>linha semana.
             let semana_absoluta = ano * semanas_por_linha + semana;
                 status = (if semana_absoluta < semanas_vividas then ''vivida'' else ''futura'')
             in linha @ [\<lparr>ano = ano, semana = semana,
                          semana_absoluta = semana_absoluta, status = status\<rparr>])
             [] (range_py semanas_por_linha)])
           [] (range_py linhas))"

subsection \<open>Dates and durations of Python's \<^verbatim>\<open>datetime\<close> module\<close>

text \<open>
  The program builds dates with \<^verbatim>\<open>datetime(...)\<close> and \<^verbatim>\<open>datetime.combine\<close>, subtracts two of
  them, reads \<^verbatim>\<open>.days\<close> of the difference, adds \<^verbatim>\<open>timedelta(weeks=...)\<close> and prints with
  \<^verbatim>\<open>strftime('%Y-%m-%d')\<close>. These operations belong to the standard library; they are written
  out here after the library's reference implementation, under its own names, in the proleptic
  Gregorian calendar. A \<^verbatim>\<open>datetime\<close> is a \<^verbatim>\<open>date\<close> with a time of day (the class extends
  \<^verbatim>\<open>date\<close>); all values are naive (no time zone), as in the program.
\<close>

datatype py_error = OverflowError | ZeroDivisionError

record date =
  year :: int
  month :: int
  day :: int

record datetime = date +
  hour :: int
  minute :: int
  second :: int
  microsecond :: int

definition MAXORDINAL :: int where
  "MAXORDINAL = 3652059"

definition DAYS_IN_MONTH :: "int list" where
  "DAYS_IN_MONTH = [-1, 31, 28, 31, 30, 31, 30, 31, 31, 30, 31, 30, 31]"

definition DAYS_BEFORE_MONTH :: "int list" where
  "DAYS_BEFORE_MONTH = [-1, 0, 31, 59, 90, 120, 151, 181, 212, 243, 273, 304, 334]"

definition is_leap :: "int \<Rightarrow> bool" where
  "is_leap y \<longleftrightarrow> y mod 4 = 0 \<and> (y mod 100 \<noteq> 0 \<or> y mod 400 = 0)"

definition days_before_year :: "int \<Rightarrow> int" where
  "days_before_year yr = (let y = yr - 1 in y * 365 + y div 4 - y div 100 + y div 400)"

definition days_in_month :: "int \<Rightarrow> int \<Rightarrow> int" where
  "days_in_month y m = (if m = 2 \<and> is_leap y then 29 else DAYS_IN_MONTH ! nat m)"

definition days_before_month :: "int \<Rightarrow> int \<Rightarrow> int" where
  "days_before_month y m = DAYS_BEFORE_MONTH ! nat m + (if 2 < m \<and> is_leap y then 1 else 0)"

definition ymd2ord :: "int \<Rightarrow> int \<Rightarrow> int \<Rightarrow> int" where
  "ymd2ord y m d = days_before_year y + days_before_month y m + d"

text \<open>
  The constructors accept exactly these field values (anything else raises \<^verbatim>\<open>ValueError\<close>
  before a value exists), so they are the values the program can hold.
\<close>

definition valid_date :: "'a date_scheme \<Rightarrow> bool" where
  "valid_date d \<longleftrightarrow>
     1 \<le> year d \<and> year d \<le> 9999 \<and> 1 \<le> month d \<and> month d \<le> 12 \<and>
     1 \<le> day d \<and> day d \<le> days_in_month (year d) (month d)"

definition valid_datetime :: "datetime \<Rightarrow> bool" where
  "valid_datetime d \<longleftrightarrow>
     valid_date d \<and> 0 \<le> hour d \<and> hour d < 24 \<and> 0 \<le> minute d \<and> minute d < 60 \<and>
     0 \<le> second d \<and> second d < 60 \<and> 0 \<le> microsecond d \<and> microsecond d < 1000000"

definition toordinal :: "'a date_scheme \<Rightarrow> int" where
  "toordinal d = ymd2ord (year d) (month d) (day d)"

text \<open>\<^verbatim>\<open>datetime.combine(d, datetime.min.time())\<close>: the date at midnight.\<close>

definition combine_min_time :: "date \<Rightarrow> datetime" where
  "combine_min_time d =
     \<lparr>year = year d, month = month d, day = day d,
      hour = 0, minute = 0, second = 0, microsecond = 0\<rparr>"

text \<open>
  Comparison of two \<^verbatim>\<open>datetime\<close> values compares the tuples of their fields, year first.
\<close>

definition datetime_lt :: "datetime \<Rightarrow> datetime \<Rightarrow> bool" where
  "datetime_lt a b \<longleftrightarrow>
     year a < year b \<or> year a = year b \<and>
    (month a < month b \<or> month a = month b \<and>
    (day a < day b \<or> day a = day b \<and>
    (hour a < hour b \<or> hour a = hour b \<and>
    (minute a < minute b \<or> minute a = minute b \<and>
    (second a < second b \<or> second a = second b \<and>
     microsecond a < microsecond b)))))"

definition datetime_le :: "datetime \<Rightarrow> datetime \<Rightarrow> bool" where
  "datetime_le a b \<longleftrightarrow> datetime_lt a b \<or> a = b"

text \<open>
  A \<^verbatim>\<open>timedelta\<close> stores days, seconds and microseconds, normalised by the constructor so
  that \<open>0 \<le> seconds < 86400\<close> and \<open>0 \<le> microseconds < 1000000\<close>; the days carry the sign. A
  magnitude of more than 999999999 days raises \<^verbatim>\<open>OverflowError\<close>.
\<close>

record timedelta =
  days :: int
  seconds :: int
  microseconds :: int

definition timedelta_new :: "int \<Rightarrow> int \<Rightarrow> int \<Rightarrow> py_error + timedelta" where
  "timedelta_new d s us =
     (let s = s + us div 1000000;
          us = us mod 1000000;
          d = d + s div 86400;
          s = s mod 86400
      in if \<bar>d\<bar> > 999999999 then Inl OverflowError
         else Inr \<lparr>days = d, seconds = s, microseconds = us\<rparr>)"


text \<open>\<^verbatim>\<open>a - b\<close> for two \<^verbatim>\<open>datetime\<close> values.\<close>

definition datetime_sub :: "datetime \<Rightarrow> datetime \<Rightarrow> py_error + timedelta" where
  "datetime_sub a b =
     (let days1 = toordinal a;
          days2 = toordinal b;
          secs1 = second a + minute a * 60 + hour a * 3600;
          secs2 = second b + minute b * 60 + hour b * 3600
      in timedelta_new (days1 - days2) (secs1 - secs2) (microsecond a - microsecond b))"





subsection \<open>The week counter (lines 16 to 23)\<close>

text \<open>
  \<^verbatim>\<open>calcular_semanas_vividas\<close>. The default argument \<^verbatim>\<open>None\<close> reads the clock; the reading
  \<^verbatim>\<open>datetime.now()\<close> is the explicit first argument \<open>now\<close>.
\<close>

definition calcular_semanas_vividas :: "datetime \<Rightarrow> datetime \<Rightarrow> datetime option \<Rightarrow> py_error + int" where
  "calcular_semanas_vividas now data_nascimento data_atual =
     (let data_atual = (case data_atual of None \<Rightarrow> now | Some d \<Rightarrow> d)
      in case datetime_sub data_atual data_nascimento of
           Inl e \<Rightarrow> Inl e
         | Inr delta \<Rightarrow>
             let semanas_vividas = days delta div 7
             in Inr semanas_vividas)"

text \<open>
  The specification speaks of the whole days between the two dates. Written from its words:
  an instant is the number of microseconds since the start of day 0 of the calendar, and the
  days between two instants are the whole days that fit in their difference.
\<close>

definition spec_instant :: "datetime \<Rightarrow> int" where
  "spec_instant d =
     toordinal d * 86400000000 +
     (hour d * 3600 + minute d * 60 + second d) * 1000000 + microsecond d"

definition spec_daysBetween :: "datetime \<Rightarrow> datetime \<Rightarrow> int" where
  "spec_daysBetween birthDate referenceDate =
     (spec_instant referenceDate - spec_instant birthDate) div 86400000000"

subsection \<open>The derived statistics of \<^verbatim>\<open>main\<close> (lines 147 to 150)\<close>

text \<open>
  The two quotients are Python floats; they are kept here as exact rationals. A total of zero
  weeks makes the first division raise \<^verbatim>\<open>ZeroDivisionError\<close> (the slider only offers 50 to
  100 years).
\<close>

record estatisticas =
  total_semanas :: int
  semanas_restantes :: int
  porcentagem_vivida :: rat
  idade_atual :: rat

definition main_estatisticas :: "int \<Rightarrow> int \<Rightarrow> py_error + estatisticas" where
  "main_estatisticas semanas_vividas expectativa_vida =
     (let total_semanas = expectativa_vida * 52;
          semanas_restantes = total_semanas - semanas_vividas
      in if total_semanas = 0 then Inl ZeroDivisionError
         else
           let porcentagem_vivida = (of_int semanas_vividas / of_int total_semanas) * 100;
               idade_atual = of_int semanas_vividas / 52
           in Inr \<lparr>total_semanas = total_semanas,
                   semanas_restantes = semanas_restantes,
                   porcentagem_vivida = porcentagem_vivida,
                   idade_atual = idade_atual\<rparr>)"

subsection \<open>The table by decade of \<^verbatim>\<open>main\<close> (lines 209 to 223)\<close>






subsection \<open>The rows of the CSV report of \<^verbatim>\<open>main\<close> (lines 246 to 258)\<close>





section \<open>Properties\<close>

subsection \<open>The grid as a table\<close>

lemma foldl_append_map: "foldl (\<lambda>acc x. acc @ [f x]) ys xs = ys @ map f xs"
  by (induction xs arbitrary: ys) simp_all

lemma criar_grid_vida_map:
  "criar_grid_vida w L =
     map (\<lambda>a. map (\<lambda>s. \<lparr>ano = a, semana = s, semana_absoluta = a * 52 + s,
                         status = (if a * 52 + s < w then ''vivida'' else ''futura'')\<rparr>)
                [0..51])
         [0..L - 1]"
  by (simp add: criar_grid_vida_def range_py_def Let_def foldl_append_map)

lemma length_criar_grid_vida: "length (criar_grid_vida w L) = nat L"
  by (simp add: criar_grid_vida_map)

lemma nth_criar_grid_vida:
  assumes "0 \<le> y" "y < L" "0 \<le> k" "k < 52"
  shows "criar_grid_vida w L ! nat y ! nat k =
         \<lparr>ano = y, semana = k, semana_absoluta = y * 52 + k,
          status = (if y * 52 + k < w then ''vivida'' else ''futura'')\<rparr>"
  using assms by (simp add: criar_grid_vida_map)

lemma length_row:
  assumes "row \<in> set (criar_grid_vida w L)" shows "length row = 52"
  using assms by (auto simp add: criar_grid_vida_map)

lemma cell_in_grid:
  assumes "row \<in> set (criar_grid_vida w L)" "c \<in> set row"
  obtains a s where "0 \<le> a" "a < L" "0 \<le> s" "s < 52"
    "c = \<lparr>ano = a, semana = s, semana_absoluta = a * 52 + s,
          status = (if a * 52 + s < w then ''vivida'' else ''futura'')\<rparr>"
proof -
  from assms(1) obtain a where a: "0 \<le> a" "a < L"
    and row: "row = map (\<lambda>s. \<lparr>ano = a, semana = s, semana_absoluta = a * 52 + s,
                 status = (if a * 52 + s < w then ''vivida'' else ''futura'')\<rparr>) [0..51]"
    unfolding criar_grid_vida_map by auto
  from assms(2) obtain s where "0 \<le> s" "s < 52"
    "c = \<lparr>ano = a, semana = s, semana_absoluta = a * 52 + s,
          status = (if a * 52 + s < w then ''vivida'' else ''futura'')\<rparr>"
    unfolding row by auto
  with a show thesis by (rule that)
qed

lemma map_shift_upto: "map (\<lambda>s. b + s) [i..j] = [b + i..b + j]"
proof (induction i j rule: upto.induct)
  case (1 i j)
  show ?case
  proof (cases "i \<le> j")
    case True
    have "[i..j] = i # [i + 1..j]"
      using True by (simp add: upto_rec1)
    moreover have "[b + i..b + j] = (b + i) # [b + (i + 1)..b + j]"
      using True by (simp add: upto_rec1 add.assoc)
    ultimately show ?thesis
      using 1[OF True] by simp
  next
    case False
    then show ?thesis by simp
  qed
qed

lemma concat_year_blocks:
  "concat (map (\<lambda>a. [a * 52..a * 52 + 51]) [0..int n - 1]) = [0..int n * 52 - 1]"
proof (induction n)
  case 0
  show ?case by simp
next
  case (Suc n)
  have "[0..int (Suc n) - 1] = [0..int n - 1] @ [int n]"
    using upto_rec2[of 0 "int n"] by simp
  moreover have "[0..int (Suc n) * 52 - 1] = [0..int n * 52 - 1] @ [int n * 52..int n * 52 + 51]"
    using upto_split1[of 0 "int n * 52" "int (Suc n) * 52 - 1"] by (simp add: algebra_simps)
  ultimately show ?case using Suc.IH by simp
qed

lemma grid_indices:
  assumes "0 \<le> L"
  shows "map semana_absoluta (concat (criar_grid_vida w L)) = [0..L * 52 - 1]"
proof -
  have "map semana_absoluta (concat (criar_grid_vida w L)) =
        concat (map (\<lambda>a. [a * 52..a * 52 + 51]) [0..L - 1])"
    by (simp add: criar_grid_vida_map map_concat comp_def map_shift_upto)
  also have "\<dots> = [0..L * 52 - 1]"
    using concat_year_blocks[of "nat L"] assms by simp
  finally show ?thesis .
qed

lemma length_filter_less_upto:
  assumes "0 \<le> n"
  shows "length (filter (\<lambda>i. i < w) [0..n - 1]) = nat (min w n)"
proof -
  have "{i. i < w} \<inter> set [0..n - 1] = {0..<min w n}" by auto
  then show ?thesis
    using distinct_length_filter[of "[0..n - 1]" "\<lambda>i. i < w"] by simp
qed

lemma count_vivida:
  assumes "0 \<le> L"
  shows "length (filter (\<lambda>c. status c = ''vivida'') (concat (criar_grid_vida w L))) =
         nat (min w (L * 52))"
proof -
  let ?cs = "concat (criar_grid_vida w L)"
  have iff: "status c = ''vivida'' \<longleftrightarrow> semana_absoluta c < w" if "c \<in> set ?cs" for c
  proof -
    from that obtain row where "row \<in> set (criar_grid_vida w L)" "c \<in> set row" by auto
    then show ?thesis by (rule cell_in_grid) auto
  qed
  have "filter (\<lambda>c. status c = ''vivida'') ?cs = filter (\<lambda>c. semana_absoluta c < w) ?cs"
    by (rule filter_cong) (simp_all add: iff)
  then have "length (filter (\<lambda>c. status c = ''vivida'') ?cs) =
        length (filter (\<lambda>c. semana_absoluta c < w) ?cs)"
    by simp
  also have "\<dots> = length (map semana_absoluta (filter ((\<lambda>i. i < w) \<circ> semana_absoluta) ?cs))"
    by (simp add: comp_def)
  also have "\<dots> = length (filter (\<lambda>i. i < w) (map semana_absoluta ?cs))"
    unfolding filter_map ..
  also have "\<dots> = nat (min w (L * 52))"
    unfolding grid_indices[OF assms] using length_filter_less_upto[of "L * 52" w] assms by simp
  finally show ?thesis .
qed

subsection \<open>Claims about the grid\<close>

text \<open>
  Claim C8. For a life expectancy of at least one year and any number of weeks lived, the
  grid has exactly \<open>L\<close> rows, every row has exactly 52 cells, and the cell in row \<open>y\<close>
  and column \<open>k\<close> records year \<open>y\<close>, week \<open>k\<close> and absolute week \<open>y * 52 + k\<close>.
\<close>

theorem criar_grid_vida_shape:
  assumes "1 \<le> L" "0 \<le> y" "y < L" "0 \<le> k" "k < 52"
  shows "int (length (criar_grid_vida w L)) = L \<and>
         length (criar_grid_vida w L ! nat y) = 52 \<and>
         ano (criar_grid_vida w L ! nat y ! nat k) = y \<and>
         semana (criar_grid_vida w L ! nat y ! nat k) = k \<and>
         semana_absoluta (criar_grid_vida w L ! nat y ! nat k) = y * 52 + k"
proof -
  have "criar_grid_vida w L ! nat y \<in> set (criar_grid_vida w L)"
    using assms by (simp add: length_criar_grid_vida)
  then have "length (criar_grid_vida w L ! nat y) = 52" by (rule length_row)
  then show ?thesis
    using assms by (simp add: length_criar_grid_vida nth_criar_grid_vida)
qed

theorem criar_grid_vida_shape_witness:
  "int (length (criar_grid_vida 3 2)) = 2 \<and>
   length (criar_grid_vida 3 2 ! 1) = 52 \<and>
   ano (criar_grid_vida 3 2 ! 1 ! 2) = 1 \<and>
   semana (criar_grid_vida 3 2 ! 1 ! 2) = 2 \<and>
   semana_absoluta (criar_grid_vida 3 2 ! 1 ! 2) = 54"
  using criar_grid_vida_shape[of 2 1 2 3] by simp

text \<open>
  Claim C1. In every grid built by \<open>criar_grid_vida\<close>, the absolute week of a cell is its
  year times 52 plus its week of the year, the cell is \<open>vivida\<close> exactly when that absolute
  week is strictly below the number of weeks lived, and it is \<open>futura\<close> otherwise.
\<close>

theorem criar_grid_vida_status_iff:
  assumes "row \<in> set (criar_grid_vida w L)" "c \<in> set row"
  shows "semana_absoluta c = ano c * 52 + semana c \<and>
         (status c = ''vivida'' \<longleftrightarrow> semana_absoluta c < w) \<and>
         (status c = ''futura'' \<longleftrightarrow> \<not> semana_absoluta c < w)"
  using assms by (rule cell_in_grid) simp

theorem criar_grid_vida_status_iff_witness:
  "criar_grid_vida 3 1 ! 0 \<in> set (criar_grid_vida 3 1) \<and>
   criar_grid_vida 3 1 ! 0 ! 2 \<in> set (criar_grid_vida 3 1 ! 0) \<and>
   criar_grid_vida 3 1 ! 0 ! 3 \<in> set (criar_grid_vida 3 1 ! 0) \<and>
   semana_absoluta (criar_grid_vida 3 1 ! 0 ! 2) = 2 \<and>
   status (criar_grid_vida 3 1 ! 0 ! 2) = ''vivida'' \<and>
   semana_absoluta (criar_grid_vida 3 1 ! 0 ! 3) = 3 \<and>
   status (criar_grid_vida 3 1 ! 0 ! 3) = ''futura''"
proof -
  have row: "criar_grid_vida 3 1 ! 0 \<in> set (criar_grid_vida 3 1)"
    by (simp add: length_criar_grid_vida)
  then have len: "length (criar_grid_vida 3 1 ! 0) = 52" by (rule length_row)
  have c2: "criar_grid_vida 3 1 ! 0 ! 2 \<in> set (criar_grid_vida 3 1 ! 0)"
    and c3: "criar_grid_vida 3 1 ! 0 ! 3 \<in> set (criar_grid_vida 3 1 ! 0)"
    by (simp_all add: len)
  have sa: "semana_absoluta (criar_grid_vida 3 1 ! 0 ! 2) = 2"
    "semana_absoluta (criar_grid_vida 3 1 ! 0 ! 3) = 3"
    by code_simp+
  show ?thesis
    using row c2 c3 sa criar_grid_vida_status_iff[OF row c2] criar_grid_vida_status_iff[OF row c3]
    by simp
qed

text \<open>
  Claim C10. With a negative number of weeks lived the grid is still built in full
  (\<open>L\<close> rows of 52 cells, nothing rejected and nothing clamped), and every cell in it is
  \<open>futura\<close>.
\<close>

theorem criar_grid_vida_negative:
  assumes "w < 0" "1 \<le> L" "row \<in> set (criar_grid_vida w L)" "c \<in> set row"
  shows "int (length (criar_grid_vida w L)) = L \<and> length row = 52 \<and> status c = ''futura''"
proof -
  from assms(3,4) obtain a s where "0 \<le> a" "0 \<le> s"
    "c = \<lparr>ano = a, semana = s, semana_absoluta = a * 52 + s,
          status = (if a * 52 + s < w then ''vivida'' else ''futura'')\<rparr>"
    by (rule cell_in_grid)
  moreover from this assms(1) have "\<not> a * 52 + s < w" by simp
  ultimately have "status c = ''futura''" by simp
  then show ?thesis
    using assms(2) length_row[OF assms(3)] by (simp add: length_criar_grid_vida)
qed

theorem criar_grid_vida_negative_witness:
  "(-5::int) < 0 \<and> (1::int) \<le> 2 \<and>
   criar_grid_vida (-5) 2 ! 0 \<in> set (criar_grid_vida (-5) 2) \<and>
   criar_grid_vida (-5) 2 ! 0 ! 0 \<in> set (criar_grid_vida (-5) 2 ! 0) \<and>
   int (length (criar_grid_vida (-5) 2)) = 2 \<and>
   length (criar_grid_vida (-5) 2 ! 0) = 52 \<and>
   status (criar_grid_vida (-5) 2 ! 0 ! 0) = ''futura''"
proof -
  have row: "criar_grid_vida (-5) 2 ! 0 \<in> set (criar_grid_vida (-5) 2)"
    by (simp add: length_criar_grid_vida)
  then have len: "length (criar_grid_vida (-5) 2 ! 0) = 52" by (rule length_row)
  have c: "criar_grid_vida (-5) 2 ! 0 ! 0 \<in> set (criar_grid_vida (-5) 2 ! 0)"
    by (simp add: len)
  show ?thesis
    using row c criar_grid_vida_negative[OF _ _ row c] by simp
qed

text \<open>
  Claim C2. For \<open>w \<ge> 0\<close> weeks lived and \<open>L \<ge> 1\<close> years the grid holds \<open>L * 52\<close> cells, of
  which exactly \<open>min w (L * 52)\<close> are \<open>vivida\<close>; when \<open>w\<close> exceeds \<open>L * 52\<close> every cell is
  \<open>vivida\<close>, and when \<open>w = 0\<close> every cell is \<open>futura\<close>. The function has no failing branch,
  so it returns a grid for every input.
\<close>

theorem criar_grid_vida_count_vivida:
  assumes "0 \<le> w" "1 \<le> L"
  shows "int (length (concat (criar_grid_vida w L))) = L * 52 \<and>
         int (length (filter (\<lambda>c. status c = ''vivida'') (concat (criar_grid_vida w L)))) =
           min w (L * 52) \<and>
         (L * 52 < w \<longrightarrow>
            filter (\<lambda>c. status c = ''vivida'') (concat (criar_grid_vida w L)) =
              concat (criar_grid_vida w L)) \<and>
         (w = 0 \<longrightarrow>
            filter (\<lambda>c. status c = ''futura'') (concat (criar_grid_vida w L)) =
              concat (criar_grid_vida w L))"
proof -
  let ?cs = "concat (criar_grid_vida w L)"
  have cell: "semana_absoluta c < L * 52 \<and> 0 \<le> semana_absoluta c \<and>
              (status c = ''vivida'' \<longleftrightarrow> semana_absoluta c < w) \<and>
              (status c = ''futura'' \<longleftrightarrow> \<not> semana_absoluta c < w)"
    if "c \<in> set ?cs" for c
  proof -
    from that obtain row where "row \<in> set (criar_grid_vida w L)" "c \<in> set row" by auto
    then show ?thesis by (rule cell_in_grid) auto
  qed
  have "length (map semana_absoluta ?cs) = nat (L * 52)"
    using assms(2) by (simp add: grid_indices del: length_map)
  then have len: "int (length ?cs) = L * 52" using assms(2) by simp
  have cnt: "int (length (filter (\<lambda>c. status c = ''vivida'') ?cs)) = min w (L * 52)"
    using assms by (simp add: count_vivida)
  have all_lived: "filter (\<lambda>c. status c = ''vivida'') ?cs = ?cs" if "L * 52 < w"
  proof -
    have "\<forall>c\<in>set ?cs. status c = ''vivida''" using that cell by force
    then show ?thesis by (rule filter_True)
  qed
  have all_future: "filter (\<lambda>c. status c = ''futura'') ?cs = ?cs" if "w = 0"
  proof -
    have "\<forall>c\<in>set ?cs. status c = ''futura''" using that cell by force
    then show ?thesis by (rule filter_True)
  qed
  show ?thesis using len cnt all_lived all_future by blast
qed

theorem criar_grid_vida_count_vivida_witness:
  "int (length (concat (criar_grid_vida 60 1))) = 1 * 52 \<and>
   int (length (filter (\<lambda>c. status c = ''vivida'') (concat (criar_grid_vida 60 1)))) = 52 \<and>
   filter (\<lambda>c. status c = ''vivida'') (concat (criar_grid_vida 60 1)) = concat (criar_grid_vida 60 1) \<and>
   int (length (filter (\<lambda>c. status c = ''vivida'') (concat (criar_grid_vida 0 1)))) = 0 \<and>
   filter (\<lambda>c. status c = ''futura'') (concat (criar_grid_vida 0 1)) = concat (criar_grid_vida 0 1) \<and>
   int (length (filter (\<lambda>c. status c = ''vivida'') (concat (criar_grid_vida 30 1)))) = 30"
  using criar_grid_vida_count_vivida[of 60 1] criar_grid_vida_count_vivida[of 0 1]
    criar_grid_vida_count_vivida[of 30 1]
  by simp

subsection \<open>The calendar\<close>

lemma div_pred:
  fixes y k :: int
  assumes "0 < k"
  shows "(y - 1) div k = y div k - (if y mod k = 0 then 1 else 0)"
proof (cases "y mod k = 0")
  case True
  have "y - 1 = k * (y div k - 1) + (k - 1)"
    using True mult_div_mod_eq[of k y] by (simp add: algebra_simps)
  then have "(y - 1) div k = y div k - 1"
    by (rule int_div_pos_eq) (use assms in simp_all)
  with True show ?thesis by simp
next
  case False
  have "0 \<le> y mod k" "y mod k < k" using assms by simp_all
  with False have r: "0 \<le> y mod k - 1" "y mod k - 1 < k" by simp_all
  have "y - 1 = k * (y div k) + (y mod k - 1)"
    using mult_div_mod_eq[of k y] by simp
  then have "(y - 1) div k = y div k"
    using r by (rule int_div_pos_eq)
  with False show ?thesis by simp
qed

lemma mod_400_100: "(y::int) mod 400 = 0 \<Longrightarrow> y mod 100 = 0"
  using mod_mod_cancel[of 100 400 y] by simp

lemma mod_100_4: "(y::int) mod 100 = 0 \<Longrightarrow> y mod 4 = 0"
  using mod_mod_cancel[of 4 100 y] by simp

lemma days_before_year_Suc:
  "days_before_year (y + 1) = days_before_year y + (if is_leap y then 366 else 365)"
proof -
  have "days_before_year (y + 1) = y * 365 + y div 4 - y div 100 + y div 400"
    by (simp add: days_before_year_def)
  moreover have "days_before_year y =
      (y - 1) * 365 + (y div 4 - (if y mod 4 = 0 then 1 else 0))
        - (y div 100 - (if y mod 100 = 0 then 1 else 0))
        + (y div 400 - (if y mod 400 = 0 then 1 else 0))"
    by (simp only: days_before_year_def Let_def div_pred[of 4 y] div_pred[of 100 y]
          div_pred[of 400 y] zero_less_numeral)
  ultimately have "days_before_year (y + 1) = days_before_year y + 365
        + (if y mod 4 = 0 then 1 else 0) - (if y mod 100 = 0 then 1 else 0)
        + (if y mod 400 = 0 then 1 else 0)"
    by (simp only: left_diff_distrib)
  then show ?thesis
    using mod_400_100[of y] mod_100_4[of y]
    by (cases "y mod 4 = 0"; cases "y mod 100 = 0"; cases "y mod 400 = 0";
        simp add: is_leap_def)
qed

lemma days_before_year_mono_nat:
  "days_before_year y \<le> days_before_year (y + int k)"
proof (induction k)
  case 0
  show ?case by simp
next
  case (Suc k)
  have "days_before_year (y + int (Suc k)) = days_before_year ((y + int k) + 1)"
    by (simp add: ac_simps)
  also have "\<dots> \<ge> days_before_year (y + int k)"
    unfolding days_before_year_Suc by simp
  finally show ?case using Suc.IH by linarith
qed

lemma days_before_year_mono:
  assumes "y \<le> y'" shows "days_before_year y \<le> days_before_year y'"
  using days_before_year_mono_nat[of y "nat (y' - y)"] assms by simp

lemma month_cases:
  assumes "1 \<le> m" "m \<le> 12"
  obtains "m = 1" | "m = 2" | "m = 3" | "m = 4" | "m = 5" | "m = 6"
    | "m = 7" | "m = 8" | "m = 9" | "m = 10" | "m = 11" | "m = (12::int)"
proof -
  from assms have "m = 1 \<or> m = 2 \<or> m = 3 \<or> m = 4 \<or> m = 5 \<or> m = 6 \<or>
    m = 7 \<or> m = 8 \<or> m = 9 \<or> m = 10 \<or> m = 11 \<or> m = 12" by arith
  then show thesis using that by blast
qed

lemma days_before_month_step:
  assumes "1 \<le> m" "m < 12"
  shows "days_before_month y (m + 1) = days_before_month y m + days_in_month y m"
proof -
  from assms have "1 \<le> m" "m \<le> 12" by simp_all
  then show ?thesis
    by (cases m rule: month_cases)
       (use assms in \<open>simp_all add: days_before_month_def days_in_month_def
          DAYS_BEFORE_MONTH_def DAYS_IN_MONTH_def\<close>)
qed

lemma days_in_month_pos:
  assumes "1 \<le> m" "m \<le> 12"
  shows "28 \<le> days_in_month y m"
  using assms
  by (cases m rule: month_cases) (simp_all add: days_in_month_def DAYS_IN_MONTH_def)

lemma days_before_month_mono_nat:
  assumes "1 \<le> m" "m + int k \<le> 12"
  shows "days_before_month y m \<le> days_before_month y (m + int k)"
  using assms
proof (induction k)
  case 0
  show ?case by simp
next
  case (Suc k)
  have "days_before_month y (m + int (Suc k)) = days_before_month y ((m + int k) + 1)"
    by (simp add: ac_simps)
  also have "\<dots> = days_before_month y (m + int k) + days_in_month y (m + int k)"
    using Suc.prems by (intro days_before_month_step) simp_all
  also have "\<dots> \<ge> days_before_month y (m + int k)"
    using days_in_month_pos[of "m + int k" y] Suc.prems by simp
  finally show ?case using Suc by simp
qed

lemma days_before_month_less:
  assumes "1 \<le> m" "m < m'" "m' \<le> 12"
  shows "days_before_month y m + days_in_month y m \<le> days_before_month y m'"
proof -
  have "days_before_month y m + days_in_month y m = days_before_month y (m + 1)"
    using assms by (simp add: days_before_month_step)
  also have "\<dots> \<le> days_before_month y ((m + 1) + int (nat (m' - (m + 1))))"
    using assms by (intro days_before_month_mono_nat) simp_all
  finally show ?thesis using assms by simp
qed

lemma days_before_month_nonneg:
  assumes "1 \<le> m" "m \<le> 12"
  shows "0 \<le> days_before_month y m"
  using assms
  by (cases m rule: month_cases) (simp_all add: days_before_month_def DAYS_BEFORE_MONTH_def)

lemma days_in_year_bound:
  assumes "1 \<le> m" "m \<le> 12"
  shows "days_before_month y m + days_in_month y m \<le> (if is_leap y then 366 else 365)"
  using assms
  by (cases m rule: month_cases)
     (simp_all add: days_before_month_def days_in_month_def DAYS_BEFORE_MONTH_def DAYS_IN_MONTH_def)

lemma toordinal_bounds:
  assumes "valid_date d"
  shows "1 \<le> toordinal d" "toordinal d \<le> MAXORDINAL"
proof -
  from assms have v: "1 \<le> year d" "year d \<le> 9999" "1 \<le> month d" "month d \<le> 12"
    "1 \<le> day d" "day d \<le> days_in_month (year d) (month d)"
    by (simp_all add: valid_date_def)
  have "days_before_year 1 \<le> days_before_year (year d)"
    using v(1) by (rule days_before_year_mono)
  then have "0 \<le> days_before_year (year d)" by (simp add: days_before_year_def)
  then show "1 \<le> toordinal d"
    using days_before_month_nonneg[OF v(3,4), of "year d"] v(5)
    by (simp add: toordinal_def ymd2ord_def)
  have "days_before_year 10000 = 3652059" by (simp add: days_before_year_def)
  moreover have "days_before_year (year d + 1) \<le> days_before_year 10000"
    using v(2) by (intro days_before_year_mono) simp
  ultimately have "days_before_year (year d) + (if is_leap (year d) then 366 else 365) \<le> 3652059"
    unfolding days_before_year_Suc by simp
  moreover note days_in_year_bound[OF v(3,4), of "year d"] v(6)
  ultimately have "days_before_year (year d) + days_before_month (year d) (month d) + day d
      \<le> 3652059"
    by linarith
  then show "toordinal d \<le> MAXORDINAL"
    by (simp add: toordinal_def ymd2ord_def MAXORDINAL_def)
qed

lemma toordinal_strict_mono:
  assumes "valid_date a" "valid_date b"
    and "year a < year b \<or> year a = year b \<and>
          (month a < month b \<or> month a = month b \<and> day a < day b)"
  shows "toordinal a < toordinal b"
proof -
  from assms(1) have va: "1 \<le> month a" "month a \<le> 12"
    "1 \<le> day a" "day a \<le> days_in_month (year a) (month a)"
    by (simp_all add: valid_date_def)
  from assms(2) have vb: "1 \<le> month b" "month b \<le> 12"
    "1 \<le> day b" "day b \<le> days_in_month (year b) (month b)"
    by (simp_all add: valid_date_def)
  consider (y) "year a < year b"
    | (m) "year a = year b" "month a < month b"
    | (d) "year a = year b" "month a = month b" "day a < day b"
    using assms(3) by blast
  then show ?thesis
  proof cases
    case y
    then have "days_before_year (year a + 1) \<le> days_before_year (year b)"
      by (intro days_before_year_mono) simp
    then have "days_before_year (year a) + (if is_leap (year a) then 366 else 365)
                 \<le> days_before_year (year b)"
      unfolding days_before_year_Suc .
    moreover note days_in_year_bound[OF va(1,2), of "year a"] va(4)
    moreover have "0 \<le> days_before_month (year b) (month b)"
      using vb(1,2) by (rule days_before_month_nonneg)
    ultimately have "days_before_year (year a) + days_before_month (year a) (month a) + day a
        < days_before_year (year b) + days_before_month (year b) (month b) + day b"
      using vb(3) by linarith
    then show ?thesis
      by (simp add: toordinal_def ymd2ord_def)
  next
    case m
    have "days_before_month (year a) (month a) + days_in_month (year a) (month a)
            \<le> days_before_month (year a) (month b)"
      using va(1) m(2) vb(2) by (rule days_before_month_less)
    then show ?thesis
      using m(1) va(4) vb(3) by (simp add: toordinal_def ymd2ord_def)
  next
    case d
    then show ?thesis by (simp add: toordinal_def ymd2ord_def)
  qed
qed

subsection \<open>Durations and the order of dates\<close>

lemma timedelta_new_eq:
  "timedelta_new d s us =
     (let D = (d * 86400000000 + s * 1000000 + us) div 86400000000
      in if \<bar>D\<bar> > 999999999 then Inl OverflowError
         else Inr \<lparr>days = D, seconds = (s + us div 1000000) mod 86400,
                   microseconds = us mod 1000000\<rparr>)"
proof -
  have "(d * 86400000000 + s * 1000000 + us) div 86400000000 =
        ((d * 86400 + s) * 1000000 + us) div (1000000 * 86400)"
    by (simp add: algebra_simps)
  also have "\<dots> = (((d * 86400 + s) * 1000000 + us) div 1000000) div 86400"
    by (rule zdiv_zmult2_eq) simp
  also have "((d * 86400 + s) * 1000000 + us) div 1000000 = d * 86400 + (s + us div 1000000)"
    by simp
  also have "(d * 86400 + (s + us div 1000000)) div 86400 = d + (s + us div 1000000) div 86400"
    by simp
  finally show ?thesis
    by (simp add: timedelta_new_def Let_def)
qed

lemma time_of_day_bounds:
  assumes "valid_datetime d"
  shows "0 \<le> (hour d * 3600 + minute d * 60 + second d) * 1000000 + microsecond d"
    and "(hour d * 3600 + minute d * 60 + second d) * 1000000 + microsecond d < 86400000000"
  using assms by (simp_all add: valid_datetime_def)

lemma spec_instant_bounds:
  assumes "valid_datetime d"
  shows "toordinal d * 86400000000 \<le> spec_instant d"
    and "spec_instant d < (toordinal d + 1) * 86400000000"
  using time_of_day_bounds[OF assms] by (simp_all add: spec_instant_def algebra_simps)

lemma div_day_lower:
  fixes x k :: int
  assumes "k * 86400000000 \<le> x"
  shows "k \<le> x div 86400000000"
  using assms by linarith

lemma div_day_upper:
  fixes x k :: int
  assumes "x < k * 86400000000"
  shows "x div 86400000000 < k"
  using assms by linarith

lemma spec_daysBetween_bounds:
  assumes "valid_datetime a" "valid_datetime b"
  shows "toordinal b - toordinal a - 1 \<le> spec_daysBetween a b"
    and "spec_daysBetween a b \<le> toordinal b - toordinal a"
proof -
  let ?x = "spec_instant b - spec_instant a"
  have lo: "(toordinal b - toordinal a - 1) * 86400000000 \<le> ?x"
    and hi: "?x < (toordinal b - toordinal a + 1) * 86400000000"
    using spec_instant_bounds[OF assms(1)] spec_instant_bounds[OF assms(2)]
    by (simp_all add: algebra_simps)
  from lo have "toordinal b - toordinal a - 1 \<le> ?x div 86400000000"
    by (rule div_day_lower)
  then show "toordinal b - toordinal a - 1 \<le> spec_daysBetween a b"
    by (simp add: spec_daysBetween_def)
  from hi have "?x div 86400000000 < toordinal b - toordinal a + 1"
    by (rule div_day_upper)
  then show "spec_daysBetween a b \<le> toordinal b - toordinal a"
    by (simp add: spec_daysBetween_def)
qed

lemma datetime_sub_valid:
  assumes "valid_datetime a" "valid_datetime b"
  shows "datetime_sub b a =
           Inr \<lparr>days = spec_daysBetween a b,
                seconds = (second b + minute b * 60 + hour b * 3600
                            - (second a + minute a * 60 + hour a * 3600)
                            + (microsecond b - microsecond a) div 1000000) mod 86400,
                microseconds = (microsecond b - microsecond a) mod 1000000\<rparr>"
proof -
  have va: "valid_date a" and vb: "valid_date b"
    using assms by (simp_all add: valid_datetime_def)
  have D: "(toordinal b - toordinal a) * 86400000000
             + (second b + minute b * 60 + hour b * 3600
                 - (second a + minute a * 60 + hour a * 3600)) * 1000000
             + (microsecond b - microsecond a) = spec_instant b - spec_instant a"
    by (simp add: spec_instant_def algebra_simps)
  have "\<bar>spec_daysBetween a b\<bar> \<le> 999999999"
    using spec_daysBetween_bounds[OF assms] toordinal_bounds[OF va] toordinal_bounds[OF vb]
    by (simp add: MAXORDINAL_def)
  then show ?thesis
    unfolding datetime_sub_def Let_def timedelta_new_eq D
    by (simp add: spec_daysBetween_def)
qed

lemma calcular_semanas_vividas_valid:
  assumes "valid_datetime b" "valid_datetime r"
  shows "calcular_semanas_vividas now b (Some r) = Inr (spec_daysBetween b r div 7)"
  by (simp add: calcular_semanas_vividas_def datetime_sub_valid[OF assms])

lemma calcular_semanas_vividas_now:
  assumes "valid_datetime b" "valid_datetime now"
  shows "calcular_semanas_vividas now b None = Inr (spec_daysBetween b now div 7)"
  by (simp add: calcular_semanas_vividas_def datetime_sub_valid[OF assms])

lemma datetime_lt_instant:
  assumes "valid_datetime a" "valid_datetime b" "datetime_lt a b"
  shows "spec_instant a < spec_instant b"
proof -
  have va: "valid_date a" and vb: "valid_date b"
    using assms by (simp_all add: valid_datetime_def)
  note ta = time_of_day_bounds[OF assms(1)]
  note tb = time_of_day_bounds[OF assms(2)]
  consider (date) "year a < year b \<or> year a = year b \<and>
          (month a < month b \<or> month a = month b \<and> day a < day b)"
    | (time) "year a = year b" "month a = month b" "day a = day b"
        "hour a < hour b \<or> hour a = hour b \<and>
        (minute a < minute b \<or> minute a = minute b \<and>
        (second a < second b \<or> second a = second b \<and> microsecond a < microsecond b))"
    using assms(3) unfolding datetime_lt_def by blast
  then show ?thesis
  proof cases
    case date
    with va vb have "toordinal a < toordinal b" by (rule toordinal_strict_mono)
    then have "(toordinal a + 1) * 86400000000 \<le> toordinal b * 86400000000" by simp
    with ta tb show ?thesis by (simp add: spec_instant_def algebra_simps)
  next
    case time
    then have "toordinal a = toordinal b" by (simp add: toordinal_def)
    moreover have "(hour a * 3600 + minute a * 60 + second a) * 1000000 + microsecond a
        < (hour b * 3600 + minute b * 60 + second b) * 1000000 + microsecond b"
    proof -
      have ba: "0 \<le> minute a" "minute a < 60" "0 \<le> second a" "second a < 60"
        "0 \<le> microsecond a" "microsecond a < 1000000"
        using assms(1) by (simp_all add: valid_datetime_def)
      have bb: "0 \<le> minute b" "minute b < 60" "0 \<le> second b" "second b < 60"
        "0 \<le> microsecond b" "microsecond b < 1000000"
        using assms(2) by (simp_all add: valid_datetime_def)
      consider (h) "hour a < hour b"
        | (m) "hour a = hour b" "minute a < minute b"
        | (s) "hour a = hour b" "minute a = minute b" "second a < second b"
        | (u) "hour a = hour b" "minute a = minute b" "second a = second b"
            "microsecond a < microsecond b"
        using time(4) by blast
      then show ?thesis
      proof cases
        case h
        with ba bb show ?thesis by (simp add: algebra_simps)
      next
        case m
        with ba bb show ?thesis by (simp add: algebra_simps)
      next
        case s
        with ba bb show ?thesis by (simp add: algebra_simps)
      next
        case u
        then show ?thesis by simp
      qed
    qed
    ultimately show ?thesis by (simp add: spec_instant_def)
  qed
qed

lemma datetime_le_instant:
  assumes "valid_datetime a" "valid_datetime b" "datetime_le a b"
  shows "spec_instant a \<le> spec_instant b"
  using assms datetime_lt_instant[of a b] by (auto simp add: datetime_le_def)

lemma spec_daysBetween_mono:
  assumes "spec_instant r1 \<le> spec_instant r2"
  shows "spec_daysBetween b r1 div 7 \<le> spec_daysBetween b r2 div 7"
  unfolding spec_daysBetween_def using assms by (intro zdiv_mono1) simp_all

subsection \<open>Claims about the week counter and the statistics\<close>

text \<open>
  Claim C7. For valid dates with the reference date not before the birth date, the week
  counter returns the floor of the whole days between the two dates divided by 7, and for a
  fixed birth date a later reference date never gives fewer weeks.
\<close>

theorem calcular_semanas_vividas_floor_mono:
  assumes "valid_datetime b" "valid_datetime r1" "valid_datetime r2"
    and "datetime_le b r1" "datetime_le r1 r2"
  shows "\<exists>w1 w2. calcular_semanas_vividas now b (Some r1) = Inr w1 \<and>
           calcular_semanas_vividas now b (Some r2) = Inr w2 \<and>
           0 \<le> spec_daysBetween b r1 \<and>
           w1 = \<lfloor>rat_of_int (spec_daysBetween b r1) / 7\<rfloor> \<and>
           w2 = \<lfloor>rat_of_int (spec_daysBetween b r2) / 7\<rfloor> \<and>
           w1 \<le> w2"
proof -
  have fl: "\<lfloor>rat_of_int k / 7\<rfloor> = k div 7" for k
    using floor_divide_of_int_eq[of k 7, where ?'a = rat] by simp
  have "spec_instant b \<le> spec_instant r1"
    using assms(1,2,4) by (rule datetime_le_instant)
  then have "0 \<le> spec_daysBetween b r1"
    by (simp add: spec_daysBetween_def pos_imp_zdiv_nonneg_iff)
  moreover have "spec_instant r1 \<le> spec_instant r2"
    using assms(2,3,5) by (rule datetime_le_instant)
  then have "spec_daysBetween b r1 div 7 \<le> spec_daysBetween b r2 div 7"
    by (rule spec_daysBetween_mono)
  ultimately show ?thesis
    by (simp add: calcular_semanas_vividas_valid[OF assms(1,2)]
          calcular_semanas_vividas_valid[OF assms(1,3)] fl)
qed

theorem calcular_semanas_vividas_floor_mono_witness:
  "valid_datetime (combine_min_time \<lparr>year = 1990, month = 1, day = 1\<rparr>) \<and>
   valid_datetime (combine_min_time \<lparr>year = 1990, month = 1, day = 20\<rparr>) \<and>
   valid_datetime (combine_min_time \<lparr>year = 1990, month = 3, day = 1\<rparr>) \<and>
   datetime_le (combine_min_time \<lparr>year = 1990, month = 1, day = 1\<rparr>)
               (combine_min_time \<lparr>year = 1990, month = 1, day = 20\<rparr>) \<and>
   datetime_le (combine_min_time \<lparr>year = 1990, month = 1, day = 20\<rparr>)
               (combine_min_time \<lparr>year = 1990, month = 3, day = 1\<rparr>) \<and>
   spec_daysBetween (combine_min_time \<lparr>year = 1990, month = 1, day = 1\<rparr>)
                    (combine_min_time \<lparr>year = 1990, month = 1, day = 20\<rparr>) = 19 \<and>
   spec_daysBetween (combine_min_time \<lparr>year = 1990, month = 1, day = 1\<rparr>)
                    (combine_min_time \<lparr>year = 1990, month = 3, day = 1\<rparr>) = 59 \<and>
   calcular_semanas_vividas (combine_min_time \<lparr>year = 2000, month = 1, day = 1\<rparr>)
      (combine_min_time \<lparr>year = 1990, month = 1, day = 1\<rparr>)
      (Some (combine_min_time \<lparr>year = 1990, month = 1, day = 20\<rparr>)) = Inr 2 \<and>
   calcular_semanas_vividas (combine_min_time \<lparr>year = 2000, month = 1, day = 1\<rparr>)
      (combine_min_time \<lparr>year = 1990, month = 1, day = 1\<rparr>)
      (Some (combine_min_time \<lparr>year = 1990, month = 3, day = 1\<rparr>)) = Inr 8"
proof -
  let ?b = "combine_min_time \<lparr>year = 1990, month = 1, day = 1\<rparr>"
  let ?r1 = "combine_min_time \<lparr>year = 1990, month = 1, day = 20\<rparr>"
  let ?r2 = "combine_min_time \<lparr>year = 1990, month = 3, day = 1\<rparr>"
  have v: "valid_datetime ?b" "valid_datetime ?r1" "valid_datetime ?r2"
    by (simp_all add: valid_datetime_def valid_date_def combine_min_time_def days_in_month_def
          DAYS_IN_MONTH_def)
  have le: "datetime_le ?b ?r1" "datetime_le ?r1 ?r2"
    by (simp_all add: datetime_le_def datetime_lt_def combine_min_time_def)
  have d: "spec_daysBetween ?b ?r1 = 19" "spec_daysBetween ?b ?r2 = 59"
    by (simp_all add: spec_daysBetween_def spec_instant_def toordinal_def ymd2ord_def
          days_before_year_def days_before_month_def DAYS_BEFORE_MONTH_def is_leap_def
          combine_min_time_def)
  have f: "\<lfloor>(19::rat) / 7\<rfloor> = 2" "\<lfloor>(59::rat) / 7\<rfloor> = 8"
    using floor_divide_of_int_eq[of 19 7, where ?'a = rat]
      floor_divide_of_int_eq[of 59 7, where ?'a = rat]
    by simp_all
  show ?thesis
    using calcular_semanas_vividas_floor_mono[OF v le, of "combine_min_time \<lparr>year = 2000, month = 1, day = 1\<rparr>"]
      v le d f
    by auto
qed

text \<open>
  Claim C4 says that the week counter never returns a negative number, clamping to 0 or
  rejecting a reference date before the birth date. The function does neither: for a birth
  date of 2024-01-08 and a reference date of 2024-01-01 the difference is \<open>-7\<close> days and the
  floor division by 7 returns \<open>-1\<close>.
\<close>

theorem calcular_semanas_vividas_negative_counterexample:
  "valid_datetime (combine_min_time \<lparr>year = 2024, month = 1, day = 8\<rparr>) \<and>
   valid_datetime (combine_min_time \<lparr>year = 2024, month = 1, day = 1\<rparr>) \<and>
   datetime_lt (combine_min_time \<lparr>year = 2024, month = 1, day = 1\<rparr>)
               (combine_min_time \<lparr>year = 2024, month = 1, day = 8\<rparr>) \<and>
   calcular_semanas_vividas (combine_min_time \<lparr>year = 2024, month = 1, day = 1\<rparr>)
      (combine_min_time \<lparr>year = 2024, month = 1, day = 8\<rparr>)
      (Some (combine_min_time \<lparr>year = 2024, month = 1, day = 1\<rparr>)) = Inr (- 1)"
  by code_simp

text \<open>
  Claim C4, amended. For valid dates the week counter always returns an integer; it is
  non-negative whenever the reference date is not before the birth date, and it is negative
  whenever the reference date is before the birth date (nothing is clamped or rejected inside
  the function).
\<close>

theorem calcular_semanas_vividas_sign:
  assumes "valid_datetime b" "valid_datetime r"
  shows "\<exists>w. calcular_semanas_vividas now b (Some r) = Inr w \<and>
           (datetime_le b r \<longrightarrow> 0 \<le> w) \<and> (datetime_lt r b \<longrightarrow> w < 0)"
proof -
  have "0 \<le> spec_daysBetween b r div 7" if "datetime_le b r"
  proof -
    have "spec_instant b \<le> spec_instant r"
      using assms that by (rule datetime_le_instant)
    then show ?thesis
      by (simp add: spec_daysBetween_def pos_imp_zdiv_nonneg_iff)
  qed
  moreover have "spec_daysBetween b r div 7 < 0" if "datetime_lt r b"
  proof -
    have "spec_instant r < spec_instant b"
      using assms(2,1) that by (rule datetime_lt_instant)
    then have "spec_daysBetween b r < 0"
      by (simp add: spec_daysBetween_def neg_imp_zdiv_neg_iff)
    then show ?thesis by (simp add: neg_imp_zdiv_neg_iff)
  qed
  ultimately show ?thesis
    by (simp add: calcular_semanas_vividas_valid[OF assms])
qed

theorem calcular_semanas_vividas_sign_witness:
  "valid_datetime (combine_min_time \<lparr>year = 2000, month = 2, day = 29\<rparr>) \<and>
   valid_datetime (combine_min_time \<lparr>year = 2000, month = 2, day = 1\<rparr>) \<and>
   datetime_lt (combine_min_time \<lparr>year = 2000, month = 2, day = 1\<rparr>)
               (combine_min_time \<lparr>year = 2000, month = 2, day = 29\<rparr>) \<and>
   datetime_le (combine_min_time \<lparr>year = 2000, month = 2, day = 1\<rparr>)
               (combine_min_time \<lparr>year = 2000, month = 2, day = 29\<rparr>) \<and>
   (\<exists>w<0. calcular_semanas_vividas (combine_min_time \<lparr>year = 2001, month = 1, day = 1\<rparr>)
      (combine_min_time \<lparr>year = 2000, month = 2, day = 29\<rparr>)
      (Some (combine_min_time \<lparr>year = 2000, month = 2, day = 1\<rparr>)) = Inr w) \<and>
   (\<exists>w\<ge>0. calcular_semanas_vividas (combine_min_time \<lparr>year = 2001, month = 1, day = 1\<rparr>)
      (combine_min_time \<lparr>year = 2000, month = 2, day = 1\<rparr>)
      (Some (combine_min_time \<lparr>year = 2000, month = 2, day = 29\<rparr>)) = Inr w)"
proof -
  let ?b = "combine_min_time \<lparr>year = 2000, month = 2, day = 29\<rparr>"
  let ?r = "combine_min_time \<lparr>year = 2000, month = 2, day = 1\<rparr>"
  have v: "valid_datetime ?b" "valid_datetime ?r"
    by (simp_all add: valid_datetime_def valid_date_def combine_min_time_def days_in_month_def
          DAYS_IN_MONTH_def is_leap_def)
  have lt: "datetime_lt ?r ?b"
    by (simp add: datetime_lt_def combine_min_time_def)
  then have le: "datetime_le ?r ?b" by (simp add: datetime_le_def)
  show ?thesis
    using calcular_semanas_vividas_sign[OF v, of "combine_min_time \<lparr>year = 2001, month = 1, day = 1\<rparr>"]
      calcular_semanas_vividas_sign[OF v(2,1), of "combine_min_time \<lparr>year = 2001, month = 1, day = 1\<rparr>"]
      v lt le
    by auto
qed

text \<open>
  Claim C9 gives 12,419 elapsed days between 1990-01-01 and 2024-01-01. The subtraction
  yields another number of days.
\<close>

theorem example_1990_2024_days_counterexample:
  "map_sum id days
     (datetime_sub (combine_min_time \<lparr>year = 2024, month = 1, day = 1\<rparr>)
                   (combine_min_time \<lparr>year = 1990, month = 1, day = 1\<rparr>)) \<noteq> Inr 12419"
  by code_simp

text \<open>
  Claim C9, amended. Between 1990-01-01 and 2024-01-01 there are 12,418 days (34 years with
  8 leap days), the week counter returns 1,774, and with a life expectancy of 80 years the
  total is 4,160 weeks and 2,386 weeks remain.
\<close>

theorem example_1990_2024:
  "datetime_sub (combine_min_time \<lparr>year = 2024, month = 1, day = 1\<rparr>)
                (combine_min_time \<lparr>year = 1990, month = 1, day = 1\<rparr>)
     = Inr \<lparr>days = 12418, seconds = 0, microseconds = 0\<rparr> \<and>
   calcular_semanas_vividas now (combine_min_time \<lparr>year = 1990, month = 1, day = 1\<rparr>)
      (Some (combine_min_time \<lparr>year = 2024, month = 1, day = 1\<rparr>)) = Inr 1774 \<and>
   map_sum id total_semanas (main_estatisticas 1774 80) = Inr 4160 \<and>
   map_sum id semanas_restantes (main_estatisticas 1774 80) = Inr 2386"
proof -
  have "datetime_sub (combine_min_time \<lparr>year = 2024, month = 1, day = 1\<rparr>)
                (combine_min_time \<lparr>year = 1990, month = 1, day = 1\<rparr>)
     = Inr \<lparr>days = 12418, seconds = 0, microseconds = 0\<rparr>"
    by code_simp
  moreover from this have "calcular_semanas_vividas now
      (combine_min_time \<lparr>year = 1990, month = 1, day = 1\<rparr>)
      (Some (combine_min_time \<lparr>year = 2024, month = 1, day = 1\<rparr>)) = Inr 1774"
    by (simp add: calcular_semanas_vividas_def)
  moreover have "map_sum id total_semanas (main_estatisticas 1774 80) = Inr 4160"
    "map_sum id semanas_restantes (main_estatisticas 1774 80) = Inr 2386"
    by (simp_all add: main_estatisticas_def)
  ultimately show ?thesis by simp
qed

text \<open>
  Claim C3 says that the remaining weeks are \<open>max 0 (total - lived)\<close>. With 10,000 weeks lived
  and 80 years the program computes \<open>4160 - 10000 = -5840\<close>, not 0.
\<close>

theorem main_estatisticas_restantes_counterexample:
  "map_sum id semanas_restantes (main_estatisticas 10000 80) \<noteq> Inr (max 0 (80 * 52 - 10000))"
  by (simp add: main_estatisticas_def)

text \<open>
  Claim C3, amended. The remaining weeks are the plain difference \<open>L * 52 - w\<close>. This equals
  \<open>max 0 (L * 52 - w)\<close> as long as the weeks lived do not exceed the total, and it is negative
  once they do.
\<close>

theorem main_estatisticas_restantes:
  assumes "L \<noteq> 0"
  shows "\<exists>e. main_estatisticas w L = Inr e \<and> total_semanas e = L * 52 \<and>
           semanas_restantes e = L * 52 - w \<and>
           (w \<le> L * 52 \<longrightarrow> semanas_restantes e = max 0 (L * 52 - w)) \<and>
           (L * 52 < w \<longrightarrow> semanas_restantes e < 0)"
  using assms by (simp add: main_estatisticas_def Let_def)

theorem main_estatisticas_restantes_witness:
  "(80::int) \<noteq> 0 \<and>
   (\<exists>e. main_estatisticas 1774 80 = Inr e \<and> semanas_restantes e = 2386 \<and>
        semanas_restantes e = max 0 (80 * 52 - 1774)) \<and>
   (\<exists>e. main_estatisticas 10000 80 = Inr e \<and> semanas_restantes e = - 5840)"
  using main_estatisticas_restantes[of 80 1774] main_estatisticas_restantes[of 80 10000]
  by auto

subsection \<open>The table by decade\<close>






subsection \<open>From day numbers back to dates\<close>






subsection \<open>Adding weeks to a date\<close>




subsection \<open>The CSV report\<close>






end
